theory Spec2Isabelle
  imports Complex_Main "HOL-Library.Word" "HOL-Library.Sublist"
begin

section \<open>Outcomes that are not a value\<close>

text \<open>
  Three ways in which a C++ expression of this library fails to produce a value:
  the program is rejected by the compiler (\<open>Ill_formed\<close>: no viable overload, a
  disabled template), \<open>std::vector::at\<close> throws \<open>std::out_of_range\<close>
  (\<open>Out_of_range\<close>), or the behaviour is undefined (\<open>Undefined_behavior\<close>: an
  index or iterator out of range, \<open>front()\<close> on an empty vector, an operand that
  is not a live object, an element operation that is itself undefined).
\<close>

datatype error = Ill_formed | Out_of_range | Undefined_behavior

section \<open>The vector primitive \<open>tvec<T, N>\<close> (hawtk/vec.hpp)\<close>

subsection \<open>The element type \<open>T\<close>\<close>

text \<open>
  \<open>tvec\<close> is a template over its element type. What the template uses of \<open>T\<close>
  is collected in a record: the trait \<open>std::is_unsigned<T>::value\<close>, the
  conversion \<open>value_type{k}\<close> of an integer literal, and the four compound
  assignments \<open>+=\<close>, \<open>-=\<close>, \<open>*=\<close>, \<open>/=\<close> on scalars, each giving the
  new value of its left operand or undefined behaviour.
\<close>

record 'a value_type =
  is_unsigned :: bool
  literal :: "int \<Rightarrow> 'a"
  s_add :: "'a \<Rightarrow> 'a \<Rightarrow> 'a option"
  s_sub :: "'a \<Rightarrow> 'a \<Rightarrow> 'a option"
  s_mul :: "'a \<Rightarrow> 'a \<Rightarrow> 'a option"
  s_div :: "'a \<Rightarrow> 'a \<Rightarrow> 'a option"

text \<open>
  \<open>unsigned int\<close> (the element type of \<open>uvec2\<close>), 32 bits wide: arithmetic is
  modulo \<open>2 ^ 32\<close>, division is unsigned and undefined for a zero divisor.
\<close>

definition unsigned_int :: "32 word value_type" where
  "unsigned_int =
     \<lparr> is_unsigned = True,
       literal = word_of_int,
       s_add = (\<lambda>a b. Some (a + b)),
       s_sub = (\<lambda>a b. Some (a - b)),
       s_mul = (\<lambda>a b. Some (a * b)),
       s_div = (\<lambda>a b. if b = 0 then None else Some (a div b)) \<rparr>"

text \<open>
  \<open>int\<close>, 32 bits wide: a value is an integer in \<open>[-2^31, 2^31)\<close>; a result
  outside that range is signed overflow, which is undefined behaviour; division
  truncates towards zero.
\<close>

definition int_range :: "int \<Rightarrow> bool" where
  "int_range k = (- (2 ^ 31) \<le> k \<and> k < 2 ^ 31)"

definition checked :: "int \<Rightarrow> int option" where
  "checked k = (if int_range k then Some k else None)"

definition truncating_div :: "int \<Rightarrow> int \<Rightarrow> int" where
  "truncating_div a b = sgn a * sgn b * (\<bar>a\<bar> div \<bar>b\<bar>)"

definition signed_int :: "int value_type" where
  "signed_int =
     \<lparr> is_unsigned = False,
       literal = (\<lambda>k. k),
       s_add = (\<lambda>a b. checked (a + b)),
       s_sub = (\<lambda>a b. checked (a - b)),
       s_mul = (\<lambda>a b. checked (a * b)),
       s_div = (\<lambda>a b. if b = 0 then None
                       else checked (truncating_div a b)) \<rparr>"


text \<open>
  \<open>float\<close> (the element type of \<open>vec2\<close> and \<open>color\<close>): a value is represented
  by the real number it denotes. Only literals that are exact in binary floating
  point (\<open>-0.5f\<close>, \<open>0.f\<close>, \<open>0.5f\<close>, \<open>1.f\<close>), copies and comparisons of them occur
  below; no floating-point arithmetic is modelled.
\<close>

type_synonym float = real

subsection \<open>Construction\<close>

text \<open>
  A \<open>tvec<T, N>\<close> is its \<open>std::array<T, N> _elements\<close>: a list of \<open>N\<close>
  elements. \<open>N\<close> is a template argument and so a parameter of every operation.
\<close>

type_synonym 'a tvec = "'a list"

text \<open>\<open>explicit tvec(const value_type& value)\<close>: every element is set to \<open>value\<close>.\<close>

definition tvec_broadcast :: "nat \<Rightarrow> 'a \<Rightarrow> 'a tvec" where
  "tvec_broadcast N v = map (\<lambda>element. v) [0..<N]"

text \<open>\<open>tvec() : tvec{value_type{0}}\<close>.\<close>

definition tvec_default :: "'a value_type \<Rightarrow> nat \<Rightarrow> 'a tvec" where
  "tvec_default T N = tvec_broadcast N (literal T 0)"

text \<open>
  \<open>template <typename... Args, typename = enable_if<sizeof...(Args) == N>>
  tvec(Args&&... args) : _elements{{args...}}\<close>: the template is disabled unless the
  number of arguments is \<open>N\<close>.
\<close>

definition tvec_elements :: "nat \<Rightarrow> 'a list \<Rightarrow> error + 'a tvec" where
  "tvec_elements N args = (if length args = N then Inr args else Inl Ill_formed)"

text \<open>
  The expression \<open>tvec<T, N>{args...}\<close> with scalar arguments: overload resolution
  among the three constructors. No argument selects the default constructor. One
  argument selects the broadcast constructor, and for \<open>N = 1\<close> also enables the
  element-list template (both then build the same vector). Any other number of
  arguments leaves only the element-list template, which is disabled unless that
  number is \<open>N\<close>; with no viable constructor the program is ill-formed.
\<close>

definition tvec_construct :: "'a value_type \<Rightarrow> nat \<Rightarrow> 'a list \<Rightarrow> error + 'a tvec" where
  "tvec_construct T N args =
     (if args = [] then Inr (tvec_default T N)
      else if length args = N then tvec_elements N args
      else if length args = 1 then Inr (tvec_broadcast N (hd args))
      else Inl Ill_formed)"

subsection \<open>Compound assignment\<close>

text \<open>
  The vector forms run \<open>for (size_type index{0}; index < N; ++index)
  _elements[index] op= rhs[index]\<close>; the scalar forms run
  \<open>for (auto& element : _elements) element op= rhs\<close>. Both stop at the first
  element operation whose behaviour is undefined (\<open>None\<close>). The result is the
  new \<open>_elements\<close> of \<open>*this\<close>.
\<close>

function index_loop ::
  "('a \<Rightarrow> 'a \<Rightarrow> 'a option) \<Rightarrow> nat \<Rightarrow> nat \<Rightarrow> 'a tvec \<Rightarrow> 'a tvec \<Rightarrow> 'a tvec option" where
  "index_loop f N index elements rhs =
     (if index < N then
        (case f (elements ! index) (rhs ! index) of
           None \<Rightarrow> None
         | Some x \<Rightarrow> index_loop f N (Suc index) (elements[index := x]) rhs)
      else Some elements)"
  by pat_completeness auto
termination
  by (relation "measure (\<lambda>(f, N, index, elements, rhs). N - index)") auto

fun range_loop :: "('a \<Rightarrow> 'a \<Rightarrow> 'a option) \<Rightarrow> 'a tvec \<Rightarrow> 'a \<Rightarrow> 'a tvec option" where
  "range_loop f [] rhs = Some []"
| "range_loop f (element # rest) rhs =
     (case f element rhs of
        None \<Rightarrow> None
      | Some x \<Rightarrow> (case range_loop f rest rhs of
                     None \<Rightarrow> None
                   | Some xs \<Rightarrow> Some (x # xs)))"


definition plus_assign_scalar :: "'a value_type \<Rightarrow> 'a tvec \<Rightarrow> 'a \<Rightarrow> 'a tvec option" where
  "plus_assign_scalar T this rhs = range_loop (s_add T) this rhs"


definition minus_assign_scalar :: "'a value_type \<Rightarrow> 'a tvec \<Rightarrow> 'a \<Rightarrow> 'a tvec option" where
  "minus_assign_scalar T this rhs = range_loop (s_sub T) this rhs"

definition times_assign :: "'a value_type \<Rightarrow> nat \<Rightarrow> 'a tvec \<Rightarrow> 'a tvec \<Rightarrow> 'a tvec option" where
  "times_assign T N this rhs = index_loop (s_mul T) N 0 this rhs"

definition times_assign_scalar :: "'a value_type \<Rightarrow> 'a tvec \<Rightarrow> 'a \<Rightarrow> 'a tvec option" where
  "times_assign_scalar T this rhs = range_loop (s_mul T) this rhs"

definition divide_assign :: "'a value_type \<Rightarrow> nat \<Rightarrow> 'a tvec \<Rightarrow> 'a tvec \<Rightarrow> 'a tvec option" where
  "divide_assign T N this rhs = index_loop (s_div T) N 0 this rhs"


subsection \<open>Unary negation\<close>

text \<open>
  \<open>template <typename U = value_type>
  enable_if_t<!is_unsigned<U>::value, tvec&> operator-() { return *this *= value_type{-1}; }\<close>

  The operator is a member that assigns to \<open>*this\<close> and returns \<open>*this\<close> by
  reference, so it is modelled on a store of vector objects: \<open>this\<close> is the
  address of the operand, and the result is the address the returned reference
  designates together with the store after the call. For an unsigned element type
  the template is disabled and \<open>-v\<close> has no viable operator. The member function
  is not \<open>const\<close>-qualified, so it is not viable either when the operand
  expression has a \<open>const\<close> type (\<open>const_operand\<close>).
\<close>

type_synonym 'a store = "nat \<rightharpoonup> 'a tvec"

definition operator_negate ::
  "'a value_type \<Rightarrow> bool \<Rightarrow> nat \<Rightarrow> 'a store \<Rightarrow> error + (nat \<times> 'a store)" where
  "operator_negate T const_operand this mem =
     (if is_unsigned T \<or> const_operand then Inl Ill_formed
      else (case mem this of
              None \<Rightarrow> Inl Undefined_behavior
            | Some elements \<Rightarrow>
                (case times_assign_scalar T elements (literal T (- 1)) of
                   None \<Rightarrow> Inl Undefined_behavior
                 | Some elements' \<Rightarrow> Inr (this, mem(this \<mapsto> elements')))))"

subsection \<open>Value-returning operators\<close>


definition operator_plus_scalar :: "'a value_type \<Rightarrow> 'a tvec \<Rightarrow> 'a \<Rightarrow> 'a tvec option" where
  "operator_plus_scalar T lhs rhs = (let result = lhs in plus_assign_scalar T result rhs)"


definition operator_minus_scalar :: "'a value_type \<Rightarrow> 'a tvec \<Rightarrow> 'a \<Rightarrow> 'a tvec option" where
  "operator_minus_scalar T lhs rhs = (let result = lhs in minus_assign_scalar T result rhs)"

definition operator_times :: "'a value_type \<Rightarrow> nat \<Rightarrow> 'a tvec \<Rightarrow> 'a tvec \<Rightarrow> 'a tvec option" where
  "operator_times T N lhs rhs = (let result = lhs in times_assign T N result rhs)"


definition operator_divide :: "'a value_type \<Rightarrow> nat \<Rightarrow> 'a tvec \<Rightarrow> 'a tvec \<Rightarrow> 'a tvec option" where
  "operator_divide T N lhs rhs = (let result = lhs in divide_assign T N result rhs)"



type_synonym vec2 = "float tvec"
type_synonym color = "float tvec"

section \<open>Vertices and the renderer interface (part 001, second header)\<close>

record vertex =
  position :: vec2
  color :: color

text \<open>
  \<open>class renderer\<close> has five pure virtual member functions and no data. A concrete
  backend is an object with its own fields \<open>self\<close> and an implementation of each
  member function, which may change those fields. (The source holds a second
  declaration of the class, without \<open>begin_pass\<close> and \<open>end_pass\<close>;
  \<open>context::draw\<close> calls \<open>begin_pass\<close>, so it is written against this one.)
\<close>

record 's renderer =
  draw :: "vertex list \<Rightarrow> 's \<Rightarrow> 's"
  begin_pass :: "'s \<Rightarrow> 's"
  end_pass :: "'s \<Rightarrow> 's"
  enable_scissor_test :: "vec2 \<Rightarrow> vec2 \<Rightarrow> 's \<Rightarrow> 's"
  disable_scissor_test :: "'s \<Rightarrow> 's"
  self :: 's

text \<open>A virtual call \<open>r->f(args)\<close> runs the backend's \<open>f\<close> on the backend's fields.\<close>

definition call_draw :: "vertex list \<Rightarrow> 's renderer \<Rightarrow> 's renderer" where
  "call_draw vertices r = r\<lparr>self := draw r vertices (self r)\<rparr>"

definition call_begin_pass :: "'s renderer \<Rightarrow> 's renderer" where
  "call_begin_pass r = r\<lparr>self := begin_pass r (self r)\<rparr>"

definition call_end_pass :: "'s renderer \<Rightarrow> 's renderer" where
  "call_end_pass r = r\<lparr>self := end_pass r (self r)\<rparr>"

text \<open>
  The test backend of the end-to-end scenario: its only field is the list of the
  calls it has received, oldest first.
\<close>

datatype renderer_call =
    Draw "vertex list"
  | Begin_pass
  | End_pass
  | Enable_scissor_test vec2 vec2
  | Disable_scissor_test

definition recording_renderer :: "renderer_call list renderer" where
  "recording_renderer =
     \<lparr> draw = (\<lambda>vertices calls. calls @ [Draw vertices]),
       begin_pass = (\<lambda>calls. calls @ [Begin_pass]),
       end_pass = (\<lambda>calls. calls @ [End_pass]),
       enable_scissor_test = (\<lambda>offset bounds calls. calls @ [Enable_scissor_test offset bounds]),
       disable_scissor_test = (\<lambda>calls. calls @ [Disable_scissor_test]),
       self = [] \<rparr>"

section \<open>The context (part 002 and part 000)\<close>

text \<open>\<open>class context\<close> has one member, \<open>std::unique_ptr<renderer> _renderer\<close>.\<close>

record 's hawtk_context =
  renderer :: "'s renderer"

text \<open>
  \<open>make_context<T>(args...)\<close> builds the backend \<open>T\<close> from \<open>args\<close> and stores it;
  the built backend is the parameter here.
\<close>

definition make_context :: "'s renderer \<Rightarrow> 's hawtk_context" where
  "make_context backend = \<lparr> renderer = backend \<rparr>"

text \<open>
  The three vertices of \<open>context::draw\<close>. \<open>vec2{x, y}\<close> has two arguments and is
  built by the element-list constructor; \<open>color{1.f}\<close> has one argument for a
  four-element vector and is built by the broadcast constructor.
\<close>

definition vertices :: "vertex list" where
  "vertices =
     [ \<lparr> position = [- 0.5, - 0.5], color = tvec_broadcast 4 1 \<rparr>,
       \<lparr> position = [0.5, - 0.5], color = tvec_broadcast 4 1 \<rparr>,
       \<lparr> position = [0, 0.5], color = tvec_broadcast 4 1 \<rparr> ]"

text \<open>\<open>context::draw\<close>: \<open>_renderer->begin_pass(); _renderer->draw(vertices);\<close>\<close>

definition context_draw :: "'s hawtk_context \<Rightarrow> 's hawtk_context" where
  "context_draw c =
     (let c1 = c\<lparr>renderer := call_begin_pass (renderer c)\<rparr>;
          c2 = c1\<lparr>renderer := call_draw vertices (renderer c1)\<rparr>
      in c2)"

text \<open>\<open>context::update\<close>: the body is empty.\<close>

definition context_update :: "'s hawtk_context \<Rightarrow> 's hawtk_context" where
  "context_update c = c"

text \<open>The calls a context with the recording backend has made so far.\<close>

definition recorded :: "renderer_call list hawtk_context \<Rightarrow> renderer_call list" where
  "recorded c = self (renderer c)"

section \<open>The widget (part 001, first header)\<close>

text \<open>
  A widget has the members \<open>bool _dirty = true\<close>, \<open>vec2 _bounds\<close> and
  \<open>std::vector<std::shared_ptr<widget>> _children\<close>. A \<open>shared_ptr\<close> value is
  an element of the type \<open>'p\<close> of pointers, whatever it points to.
\<close>

record 'p widget =
  dirty :: bool
  bounds :: vec2
  children :: "'p list"

text \<open>\<open>widget() = default\<close>: \<open>_bounds\<close> is built by \<open>vec2()\<close>, all zero.\<close>

definition widget_default :: "'p widget" where
  "widget_default = \<lparr> dirty = True, bounds = tvec_broadcast 2 0, children = [] \<rparr>"

text \<open>\<open>explicit widget(const vec2& bounds)\<close>.\<close>

definition widget_bounds :: "vec2 \<Rightarrow> 'p widget" where
  "widget_bounds b = \<lparr> dirty = True, bounds = b, children = [] \<rparr>"

text \<open>
  What a returned reference designates. The accessors return \<open>auto&\<close>, a reference
  to an element of \<open>_children\<close>: \<open>Slot i\<close> is the \<open>shared_ptr\<close> stored at index
  \<open>i\<close>. \<open>Pointee p\<close> is the widget object that the pointer \<open>p\<close> owns, which is
  what a reference of type \<open>T&\<close> to a widget subtype \<open>T\<close> designates.
\<close>

datatype 'p reference = Slot nat | Pointee 'p

text \<open>Reading the pointer stored in a slot.\<close>

definition child :: "'p widget \<Rightarrow> nat \<Rightarrow> 'p" where
  "child w i = children w ! i"

text \<open>
  An iterator of \<open>_children\<close> is a position: \<open>begin()\<close> is 0 and \<open>end()\<close> is the
  number of children. The member functions forward to \<open>std::vector\<close>, whose
  preconditions are those of the C++ standard: \<open>at\<close> throws for an index that is
  not below \<open>size()\<close>; \<open>operator[]\<close> with such an index, \<open>front\<close> and \<open>back\<close> on
  an empty vector, \<open>insert\<close> at an iterator outside \<open>[begin(), end()]\<close>,
  \<open>erase\<close> of an iterator outside \<open>[begin(), end())\<close> and \<open>erase\<close> of an invalid
  range have undefined behaviour.
\<close>

definition size_widget :: "'p widget \<Rightarrow> nat" where
  "size_widget w = length (children w)"

definition at_widget :: "'p widget \<Rightarrow> nat \<Rightarrow> error + 'p reference" where
  "at_widget w pos = (if pos < length (children w) then Inr (Slot pos) else Inl Out_of_range)"

definition subscript :: "'p widget \<Rightarrow> nat \<Rightarrow> error + 'p reference" where
  "subscript w pos =
     (if pos < length (children w) then Inr (Slot pos) else Inl Undefined_behavior)"

definition front :: "'p widget \<Rightarrow> error + 'p reference" where
  "front w = (if children w = [] then Inl Undefined_behavior else Inr (Slot 0))"

definition back_widget :: "'p widget \<Rightarrow> error + 'p reference" where
  "back_widget w =
     (if children w = [] then Inl Undefined_behavior
      else Inr (Slot (length (children w) - 1)))"

definition begin_widget :: "'p widget \<Rightarrow> nat" where
  "begin_widget w = 0"

definition end_widget :: "'p widget \<Rightarrow> nat" where
  "end_widget w = length (children w)"

definition clear :: "'p widget \<Rightarrow> 'p widget" where
  "clear w = w\<lparr>children := []\<rparr>"

definition insert_widget :: "'p widget \<Rightarrow> nat \<Rightarrow> 'p \<Rightarrow> error + 'p widget" where
  "insert_widget w pos p =
     (if pos \<le> length (children w)
      then Inr (w\<lparr>children := take pos (children w) @ p # drop pos (children w)\<rparr>)
      else Inl Undefined_behavior)"

text \<open>\<open>erase\<close> returns the iterator that follows the removed elements.\<close>

definition erase :: "'p widget \<Rightarrow> nat \<Rightarrow> error + (nat \<times> 'p widget)" where
  "erase w pos =
     (if pos < length (children w)
      then Inr (pos, w\<lparr>children := take pos (children w) @ drop (Suc pos) (children w)\<rparr>)
      else Inl Undefined_behavior)"

definition erase_range :: "'p widget \<Rightarrow> nat \<Rightarrow> nat \<Rightarrow> error + (nat \<times> 'p widget)" where
  "erase_range w first_it last_it =
     (if first_it \<le> last_it \<and> last_it \<le> length (children w)
      then Inr (first_it, w\<lparr>children := take first_it (children w) @ drop last_it (children w)\<rparr>)
      else Inl Undefined_behavior)"

definition push_back :: "'p widget \<Rightarrow> 'p \<Rightarrow> 'p widget" where
  "push_back w p = w\<lparr>children := children w @ [p]\<rparr>"

text \<open>
  \<open>template <typename T, typename... Args> T& emplace_back(Args&&... args) {
  _children.emplace_back(std::make_unique<T>(std::forward<Args>(args)...));
  return _children.back(); }\<close>

  \<open>std::make_unique<T>(args...)\<close> is library code: its result, the pointer that
  owns the newly built \<open>T\<close>, is the parameter \<open>p\<close>. The two statements of the
  body append \<open>p\<close> and name \<open>_children.back()\<close>, the slot just appended.
\<close>

definition emplace_back_body :: "'p widget \<Rightarrow> 'p \<Rightarrow> 'p reference \<times> 'p widget" where
  "emplace_back_body w p =
     (let w' = w\<lparr>children := children w @ [p]\<rparr>
      in (Slot (length (children w') - 1), w'))"

text \<open>
  The declared return type is \<open>T&\<close> for a widget subtype \<open>T\<close>. A reference of
  that type binds to a widget object; it does not bind to an lvalue of type
  \<open>std::shared_ptr<widget>\<close>, and a \<open>return\<close> statement that names one makes the
  function ill-formed.
\<close>

definition return_widget_reference :: "'p reference \<Rightarrow> error + 'p reference" where
  "return_widget_reference r = (case r of Pointee q \<Rightarrow> Inr (Pointee q) | Slot i \<Rightarrow> Inl Ill_formed)"

text \<open>
  A call of \<open>emplace_back<T>\<close> instantiates the template, body and return type
  together: where the instantiation is ill-formed the program is rejected and
  nothing runs.
\<close>

definition emplace_back :: "'p widget \<Rightarrow> 'p \<Rightarrow> error + ('p reference \<times> 'p widget)" where
  "emplace_back w p =
     (case emplace_back_body w p of
        (r, w') \<Rightarrow>
          (case return_widget_reference r of
             Inl e \<Rightarrow> Inl e
           | Inr r' \<Rightarrow> Inr (r', w')))"

text \<open>
  Forward iteration \<open>for (auto it = w.begin(); it != w.end(); ++it)\<close>, reading
  \<open>*it\<close> at each step: the pointers visited, in the order of the visit.
\<close>

definition iterate :: "'p widget \<Rightarrow> 'p list" where
  "iterate w = map (child w) [begin_widget w ..< end_widget w]"

section \<open>Programs over one widget and one context\<close>

text \<open>
  A client of the library holds a context and a widget and calls their public
  member functions one after the other. (\<open>widget::draw\<close> is pure virtual and
  private: it has no body in this library, and \<open>context::draw\<close>, the only code
  that could call it, does not.)
\<close>

datatype 'p operation =
    Op_at nat
  | Op_subscript nat
  | Op_front
  | Op_back
  | Op_size
  | Op_begin
  | Op_end
  | Op_clear
  | Op_insert nat 'p
  | Op_erase nat
  | Op_erase_range nat nat
  | Op_push_back 'p
  | Op_emplace_back 'p
  | Op_context_draw
  | Op_context_update

record ('s, 'p) program_state =
  the_context :: "'s hawtk_context"
  the_widget :: "'p widget"

text \<open>
  One call. An exception thrown by \<open>at\<close> is caught by the caller, who goes on with
  the state the call left; after undefined behaviour there is no state to go on
  with, and a program with an ill-formed call does not run at all.
\<close>

fun step :: "'p operation \<Rightarrow> ('s, 'p) program_state \<Rightarrow> error + ('s, 'p) program_state" where
  "step (Op_at pos) s =
     (case at_widget (the_widget s) pos of
        Inl Undefined_behavior \<Rightarrow> Inl Undefined_behavior
      | Inl Ill_formed \<Rightarrow> Inl Ill_formed
      | Inl Out_of_range \<Rightarrow> Inr s
      | Inr r \<Rightarrow> Inr s)"
| "step (Op_subscript pos) s =
     (case subscript (the_widget s) pos of Inl e \<Rightarrow> Inl e | Inr r \<Rightarrow> Inr s)"
| "step Op_front s =
     (case front (the_widget s) of Inl e \<Rightarrow> Inl e | Inr r \<Rightarrow> Inr s)"
| "step Op_back s =
     (case back_widget (the_widget s) of Inl e \<Rightarrow> Inl e | Inr r \<Rightarrow> Inr s)"
| "step Op_size s = Inr s"
| "step Op_begin s = Inr s"
| "step Op_end s = Inr s"
| "step Op_clear s = Inr (s\<lparr>the_widget := clear (the_widget s)\<rparr>)"
| "step (Op_insert pos p) s =
     (case insert_widget (the_widget s) pos p of
        Inl e \<Rightarrow> Inl e
      | Inr w \<Rightarrow> Inr (s\<lparr>the_widget := w\<rparr>))"
| "step (Op_erase pos) s =
     (case erase (the_widget s) pos of
        Inl e \<Rightarrow> Inl e
      | Inr (it, w) \<Rightarrow> Inr (s\<lparr>the_widget := w\<rparr>))"
| "step (Op_erase_range first_it last_it) s =
     (case erase_range (the_widget s) first_it last_it of
        Inl e \<Rightarrow> Inl e
      | Inr (it, w) \<Rightarrow> Inr (s\<lparr>the_widget := w\<rparr>))"
| "step (Op_push_back p) s = Inr (s\<lparr>the_widget := push_back (the_widget s) p\<rparr>)"
| "step (Op_emplace_back p) s =
     (case emplace_back (the_widget s) p of
        Inl e \<Rightarrow> Inl e
      | Inr (r, w) \<Rightarrow> Inr (s\<lparr>the_widget := w\<rparr>))"
| "step Op_context_draw s = Inr (s\<lparr>the_context := context_draw (the_context s)\<rparr>)"
| "step Op_context_update s = Inr (s\<lparr>the_context := context_update (the_context s)\<rparr>)"

fun run :: "'p operation list \<Rightarrow> ('s, 'p) program_state \<Rightarrow> error + ('s, 'p) program_state" where
  "run [] s = Inr s"
| "run (op # ops) s = (case step op s of Inl e \<Rightarrow> Inl e | Inr s' \<Rightarrow> run ops s')"

text \<open>
  The operations that build the child sequence: \<open>push_back\<close>, inserts at a
  position and erases. (\<open>emplace_back\<close> is left out: no call of it compiles.)
\<close>

fun builds :: "'p operation \<Rightarrow> bool" where
  "builds (Op_push_back p) = True"
| "builds (Op_insert pos p) = True"
| "builds (Op_erase pos) = True"
| "builds (Op_erase_range first_it last_it) = True"
| "builds other = False"

fun inserts_at_position :: "'p operation \<Rightarrow> bool" where
  "inserts_at_position (Op_insert pos p) = True"
| "inserts_at_position other = False"

text \<open>The children handed to the widget by a list of calls, in the order of the calls.\<close>

fun inserted :: "'p operation list \<Rightarrow> 'p list" where
  "inserted [] = []"
| "inserted (Op_push_back p # ops) = p # inserted ops"
| "inserted (Op_insert pos p # ops) = p # inserted ops"
| "inserted (other # ops) = inserted ops"

text \<open>
  The surviving inserted children: those handed to the widget by a list of calls that
  are still among its children, in the order of their insertion.
\<close>

definition surviving :: "'p widget \<Rightarrow> 'p operation list \<Rightarrow> 'p list" where
  "surviving w ops = filter (\<lambda>p. p \<in> set (children w)) (inserted ops)"

text \<open>The number of children a list of calls asks to erase.\<close>

fun erased :: "'p operation list \<Rightarrow> nat" where
  "erased [] = 0"
| "erased (Op_erase pos # ops) = 1 + erased ops"
| "erased (Op_erase_range first_it last_it # ops) = (last_it - first_it) + erased ops"
| "erased (other # ops) = erased ops"

text \<open>
  The sequence the specification describes, on plain lists: children in the order
  of their insertion, except that an insert at a position puts the child before
  the element at that position and an erase removes the elements at its positions.
\<close>

fun spec_sequence :: "'p operation list \<Rightarrow> 'p list \<Rightarrow> 'p list" where
  "spec_sequence [] xs = xs"
| "spec_sequence (Op_push_back p # ops) xs = spec_sequence ops (xs @ [p])"
| "spec_sequence (Op_insert pos p # ops) xs =
     spec_sequence ops (take pos xs @ [p] @ drop pos xs)"
| "spec_sequence (Op_erase pos # ops) xs =
     spec_sequence ops (map (\<lambda>i. xs ! i) (filter (\<lambda>i. i \<noteq> pos) [0..<length xs]))"
| "spec_sequence (Op_erase_range first_it last_it # ops) xs =
     spec_sequence ops
       (map (\<lambda>i. xs ! i) (filter (\<lambda>i. \<not> (first_it \<le> i \<and> i < last_it)) [0..<length xs]))"
| "spec_sequence (other # ops) xs = spec_sequence ops xs"

section \<open>Example programs\<close>

text \<open>
  A store with two vectors of \<open>int\<close>; a context with the recording backend and a
  default-constructed widget; a few call sequences with the states they lead to.
\<close>

definition two_vectors :: "int store" where
  "two_vectors = [0 \<mapsto> [1, - 2], 1 \<mapsto> [5, 6]]"

definition fresh_state :: "(renderer_call list, nat) program_state" where
  "fresh_state = \<lparr> the_context = make_context recording_renderer, the_widget = widget_default \<rparr>"

definition two_children :: "(renderer_call list, nat) program_state" where
  "two_children = \<lparr> the_context = make_context recording_renderer,
     the_widget = \<lparr> dirty = True, bounds = [0, 0], children = [10, 20] \<rparr> \<rparr>"

definition mixed_calls :: "nat operation list" where
  "mixed_calls = [Op_push_back 1, Op_at 5, Op_context_draw, Op_clear, Op_push_back 2,
     Op_insert 0 3, Op_erase 1, Op_front, Op_context_update, Op_size]"

definition mixed_state :: "(renderer_call list, nat) program_state" where
  "mixed_state = \<lparr> the_context = context_draw (make_context recording_renderer),
     the_widget = \<lparr> dirty = True, bounds = tvec_broadcast 2 0, children = [3] \<rparr> \<rparr>"

definition building_calls :: "nat operation list" where
  "building_calls = [Op_push_back 1, Op_push_back 2, Op_insert 0 3, Op_push_back 4,
     Op_erase 1, Op_push_back 5, Op_erase_range 1 3]"

definition built_state :: "(renderer_call list, nat) program_state" where
  "built_state = \<lparr> the_context = make_context recording_renderer,
     the_widget = \<lparr> dirty = True, bounds = tvec_broadcast 2 0, children = [3, 5] \<rparr> \<rparr>"

definition appending_calls :: "nat operation list" where
  "appending_calls = [Op_push_back 1, Op_push_back 2, Op_push_back 3, Op_erase 1,
     Op_push_back 4]"

definition insert_first_calls :: "nat operation list" where
  "insert_first_calls = [Op_push_back 1, Op_insert 0 2]"

definition insert_first_state :: "(renderer_call list, nat) program_state" where
  "insert_first_state = \<lparr> the_context = make_context recording_renderer,
     the_widget = \<lparr> dirty = True, bounds = tvec_broadcast 2 0, children = [2, 1] \<rparr> \<rparr>"

definition appended_state :: "(renderer_call list, nat) program_state" where
  "appended_state = \<lparr> the_context = make_context recording_renderer,
     the_widget = \<lparr> dirty = True, bounds = tvec_broadcast 2 0, children = [1, 3, 4] \<rparr> \<rparr>"

section \<open>Properties of the vector primitive\<close>

lemma tvec_broadcast_replicate: "tvec_broadcast N v = replicate N v"
  by (simp add: tvec_broadcast_def map_replicate_const)

lemma range_loop_Some:
  "range_loop f es rhs = Some r \<Longrightarrow>
     length r = length es \<and> (\<forall>i<length es. f (es ! i) rhs = Some (r ! i))"
proof (induction es arbitrary: r)
  case Nil
  then show ?case by simp
next
  case (Cons e es)
  then show ?case
    by (auto split: option.splits simp: nth_Cons split: nat.splits)
qed

lemma range_loop_total:
  "(\<And>e. e \<in> set es \<Longrightarrow> f e rhs \<noteq> None) \<Longrightarrow>
     range_loop f es rhs = Some (map (\<lambda>e. the (f e rhs)) es)"
  by (induction es) (auto split: option.splits)



lemma range_loop_Some_iff:
  "(\<exists>r. range_loop f es rhs = Some r) \<longleftrightarrow> (\<forall>e\<in>set es. f e rhs \<noteq> None)"
  by (induction es) (auto split: option.splits)

subsection \<open>Add then subtract, multiply then divide\<close>







subsection \<open>Claims about the vector primitive\<close>




text \<open>
  Claim C5, as amended. For every dimension \<open>N\<close>, constructing a vector from a list
  of scalar arguments is rejected at compile time exactly when the number of
  arguments differs from \<open>N\<close> and is at least two. A list of \<open>N\<close> arguments gives
  the vector of those elements, no argument gives the vector of \<open>N\<close> zeros and a
  single argument gives the vector of \<open>N\<close> copies of it.
\<close>

theorem construct_arity:
  "(tvec_construct T N args = Inl Ill_formed \<longleftrightarrow> length args \<noteq> N \<and> 2 \<le> length args) \<and>
   (length args = N \<longrightarrow> tvec_construct T N args = Inr args) \<and>
   (length args = 0 \<longrightarrow> tvec_construct T N args = Inr (replicate N (literal T 0))) \<and>
   (length args = 1 \<longrightarrow> tvec_construct T N args = Inr (replicate N (hd args)))"
  by (cases args)
    (auto simp: tvec_construct_def tvec_elements_def tvec_default_def tvec_broadcast_replicate
      Suc_le_eq)

theorem construct_arity_witness:
  "tvec_construct unsigned_int 2 [1, 2, 3] = Inl Ill_formed
   \<and> tvec_construct unsigned_int 3 [1, 2, 3] = Inr [1, 2, 3]
   \<and> tvec_construct unsigned_int 3 [] = Inr [0, 0, 0]
   \<and> tvec_construct unsigned_int 3 [7] = Inr [7, 7, 7]"
  using construct_arity [of unsigned_int 2 "[1, 2, 3]"] construct_arity [of unsigned_int 3 "[1, 2, 3]"]
    construct_arity [of unsigned_int 3 "[]"] construct_arity [of unsigned_int 3 "[7]"]
  by (simp add: unsigned_int_def numeral_3_eq_3)

text \<open>
  One argument for a four-element vector, and no argument for a two-element vector,
  are accepted although the number of arguments is not the dimension;
  \<open>context::draw\<close> itself builds its colours as \<open>color{1.f}\<close>.
\<close>

theorem construct_one_or_no_argument:
  "length [7 :: 32 word] \<noteq> 4 \<and> tvec_construct unsigned_int 4 [7] = Inr [7, 7, 7, 7]
   \<and> length ([] :: 32 word list) \<noteq> 2 \<and> tvec_construct unsigned_int 2 [] = Inr [0, 0]"
  by (simp add: tvec_construct_def tvec_default_def tvec_broadcast_replicate unsigned_int_def
      numeral_eq_Suc)

text \<open>The unary operator on a live, non-const operand of a type that is not unsigned.\<close>

lemma signed_negation_defined:
  "int_range e \<Longrightarrow> s_mul signed_int e (literal signed_int (- 1)) \<noteq> None \<longleftrightarrow> e \<noteq> - (2 ^ 31)"
  by (auto simp: signed_int_def checked_def int_range_def)

lemma negate_live_operand:
  assumes "\<not> is_unsigned T" and "\<not> c" and "mem this = Some es"
  shows "((\<exists>r. operator_negate T c this mem = Inr r) \<longleftrightarrow>
           (\<forall>e\<in>set es. s_mul T e (literal T (- 1)) \<noteq> None)) \<and>
         (operator_negate T c this mem = Inl Undefined_behavior \<longleftrightarrow>
           (\<exists>e\<in>set es. s_mul T e (literal T (- 1)) = None))"
proof (cases "range_loop (s_mul T) es (literal T (- 1))")
  case None
  then have "\<not> (\<forall>e\<in>set es. s_mul T e (literal T (- 1)) \<noteq> None)"
    using range_loop_Some_iff[of "s_mul T" es "literal T (- 1)"] by simp
  moreover have "operator_negate T c this mem = Inl Undefined_behavior"
    using assms None by (simp add: operator_negate_def times_assign_scalar_def)
  ultimately show ?thesis by simp
next
  case (Some es')
  then have "\<forall>e\<in>set es. s_mul T e (literal T (- 1)) \<noteq> None"
    using range_loop_Some_iff[of "s_mul T" es "literal T (- 1)"] by blast
  moreover have "operator_negate T c this mem = Inr (this, mem(this \<mapsto> es'))"
    using assms Some by (simp add: operator_negate_def times_assign_scalar_def)
  ultimately show ?thesis by simp
qed

text \<open>
  Claim C6, as amended. Unary negation \<open>-v\<close> is rejected at compile time exactly
  when the element type of \<open>v\<close> is unsigned or \<open>v\<close> is const (the operator is a
  non-const member). For a live, non-const vector whose element type is not
  unsigned the expression is well-formed; it returns exactly when the product of
  every element with \<open>value_type{-1}\<close> is defined, and otherwise its behaviour is
  undefined, at run time. Over \<open>int\<close> it returns exactly when no element is the
  least value \<open>-2^31\<close>.
\<close>

theorem negate_signed_only:
  "(operator_negate T c this mem = Inl Ill_formed \<longleftrightarrow> is_unsigned T \<or> c) \<and>
   (\<not> is_unsigned T \<and> \<not> c \<and> mem this = Some es \<longrightarrow>
      ((\<exists>r. operator_negate T c this mem = Inr r) \<longleftrightarrow>
         (\<forall>e\<in>set es. s_mul T e (literal T (- 1)) \<noteq> None)) \<and>
      (operator_negate T c this mem = Inl Undefined_behavior \<longleftrightarrow>
         (\<exists>e\<in>set es. s_mul T e (literal T (- 1)) = None))) \<and>
   (\<not> c \<and> imem this = Some ies \<and> (\<forall>e\<in>set ies. int_range e) \<longrightarrow>
      ((\<exists>r. operator_negate signed_int c this imem = Inr r) \<longleftrightarrow> - (2 ^ 31) \<notin> set ies))"
proof -
  have 1: "operator_negate T c this mem = Inl Ill_formed \<longleftrightarrow> is_unsigned T \<or> c"
    by (auto simp: operator_negate_def split: option.splits)
  have 2: "\<not> is_unsigned T \<and> \<not> c \<and> mem this = Some es \<longrightarrow>
      ((\<exists>r. operator_negate T c this mem = Inr r) \<longleftrightarrow>
         (\<forall>e\<in>set es. s_mul T e (literal T (- 1)) \<noteq> None)) \<and>
      (operator_negate T c this mem = Inl Undefined_behavior \<longleftrightarrow>
         (\<exists>e\<in>set es. s_mul T e (literal T (- 1)) = None))"
    using negate_live_operand[of T c mem this es] by blast
  have 3: "(\<exists>r. operator_negate signed_int c this imem = Inr r) \<longleftrightarrow> - (2 ^ 31) \<notin> set ies"
    if b: "\<not> c \<and> imem this = Some ies \<and> (\<forall>e\<in>set ies. int_range e)"
  proof -
    have s: "\<not> is_unsigned signed_int" by (simp add: signed_int_def)
    have "(\<forall>e\<in>set ies. s_mul signed_int e (literal signed_int (- 1)) \<noteq> None)
            \<longleftrightarrow> (\<forall>e\<in>set ies. e \<noteq> - (2 ^ 31))"
      using b signed_negation_defined by (intro ball_cong refl) simp
    also have "\<dots> \<longleftrightarrow> - (2 ^ 31) \<notin> set ies" by blast
    finally show ?thesis
      using negate_live_operand[OF s, of c imem this ies] b by simp
  qed
  from 1 2 3 show ?thesis by blast
qed

theorem negate_signed_only_witness:
  "operator_negate unsigned_int False 0 [0 \<mapsto> [1, 2]] = Inl Ill_formed \<and>
   operator_negate signed_int True 0 two_vectors = Inl Ill_formed \<and>
   \<not> is_unsigned signed_int \<and> two_vectors 0 = Some [1, - 2] \<and>
   int_range 1 \<and> int_range (- 2) \<and> - (2 ^ 31) \<notin> set [1, - 2 :: int] \<and>
   (\<exists>r. operator_negate signed_int False 0 two_vectors = Inr r) \<and>
   operator_negate signed_int False 0 two_vectors \<noteq> Inl Undefined_behavior"
proof -
  have u: "is_unsigned unsigned_int" by (simp add: unsigned_int_def)
  have h1: "\<not> is_unsigned signed_int" by (simp add: signed_int_def)
  have h2: "two_vectors 0 = Some [1, - 2]" by (simp add: two_vectors_def)
  have h3: "\<forall>e\<in>set [1, - 2]. int_range e" by (simp add: int_range_def)
  have h3': "int_range 1" "int_range (- 2)" by (simp_all add: int_range_def)
  have h4: "- (2 ^ 31) \<notin> set [1, - 2 :: int]" by simp
  have h5: "\<not> (\<exists>e\<in>set [1, - 2]. s_mul signed_int e (literal signed_int (- 1)) = None)"
    by (simp add: signed_int_def checked_def int_range_def)
  from negate_signed_only [of unsigned_int False 0 "[0 \<mapsto> [1, 2]]" "[1, 2]" two_vectors "[1, - 2]"]
    negate_signed_only [of signed_int True 0 two_vectors "[1, - 2]" two_vectors "[1, - 2]"]
    negate_signed_only [of signed_int False 0 two_vectors "[1, - 2]" two_vectors "[1, - 2]"]
    u h1 h2 h3 h3' h4 h5
  show ?thesis by blast
qed

text \<open>
  Two vectors of the signed type \<open>int\<close> for which negation is not defined: a const
  one, where \<open>-v\<close> does not compile, and one that holds the least value, where the
  product with \<open>-1\<close> overflows at run time.
\<close>

theorem negate_signed_rejected_or_undefined:
  "\<not> is_unsigned signed_int \<and>
   operator_negate signed_int True 0 [0 \<mapsto> [1, 2]] = Inl Ill_formed \<and>
   operator_negate signed_int False 0 [0 \<mapsto> [- 2147483648, 1]] = Inl Undefined_behavior"
  by (simp add: operator_negate_def times_assign_scalar_def signed_int_def checked_def
      int_range_def)

text \<open>
  Claim C10, as amended. For a vector \<open>v\<close> whose element type is not unsigned,
  whenever \<open>-v\<close> returns: the reference it returns designates \<open>v\<close> itself, no
  other object is created or changed, and every element of \<open>v\<close> has been replaced
  by its product with \<open>value_type{-1}\<close>. So \<open>v\<close> no longer holds its original
  elements as soon as one of them differs from its own product with
  \<open>value_type{-1}\<close>. On a non-const operand the call returns when every such
  product is defined.
\<close>

theorem negate_in_place:
  assumes "\<not> is_unsigned T" and "mem this = Some es"
  shows "(\<forall>c r mem'. operator_negate T c this mem = Inr (r, mem') \<longrightarrow>
            r = this \<and> dom mem' = dom mem \<and> (\<forall>a. a \<noteq> this \<longrightarrow> mem' a = mem a) \<and>
            (\<exists>es'. mem' this = Some es' \<and> length es' = length es \<and>
               (\<forall>i<length es. s_mul T (es ! i) (literal T (- 1)) = Some (es' ! i))) \<and>
            ((\<exists>i<length es. s_mul T (es ! i) (literal T (- 1)) \<noteq> Some (es ! i)) \<longrightarrow>
               mem' this \<noteq> Some es))
       \<and> ((\<forall>e\<in>set es. s_mul T e (literal T (- 1)) \<noteq> None) \<longrightarrow>
            (\<exists>res. operator_negate T False this mem = Inr res))"
  using assms
  by (auto simp: operator_negate_def times_assign_scalar_def range_loop_total
      split: option.splits if_splits dest: range_loop_Some)


theorem negate_in_place_witness:
  "\<not> is_unsigned signed_int \<and> two_vectors 0 = Some [1, - 2] \<and>
   operator_negate signed_int False 0 two_vectors = Inr (0, two_vectors(0 \<mapsto> [- 1, 2])) \<and>
   dom (two_vectors(0 \<mapsto> [- 1, 2])) = dom two_vectors \<and>
   (two_vectors(0 \<mapsto> [- 1, 2])) 1 = two_vectors 1 \<and>
   (two_vectors(0 \<mapsto> [- 1, 2])) 0 \<noteq> Some [1, - 2]"
proof -
  have h1: "\<not> is_unsigned signed_int" by (simp add: signed_int_def)
  have h2: "two_vectors 0 = Some [1, - 2]" by (simp add: two_vectors_def)
  have r: "operator_negate signed_int False 0 two_vectors = Inr (0, two_vectors(0 \<mapsto> [- 1, 2]))"
    by (simp add: operator_negate_def times_assign_scalar_def signed_int_def checked_def
        int_range_def two_vectors_def)
  have d: "\<exists>i<length [1, - 2 :: int]. s_mul signed_int ([1, - 2] ! i) (literal signed_int (- 1))
             \<noteq> Some ([1, - 2] ! i)"
    by (rule exI[of _ 0]) (simp add: signed_int_def checked_def int_range_def)
  have one: "(1 :: nat) \<noteq> 0" by simp
  from negate_in_place [of signed_int two_vectors 0 "[1, - 2]", OF h1 h2] r d one h1 h2
  show ?thesis by blast
qed


text \<open>
  Negating the zero vector leaves the operand with the elements it had: the claim
  that \<open>v\<close> never holds its original elements afterwards fails there. And a vector
  of \<open>int\<close> that holds the least value is not negated at all: the product
  overflows.
\<close>

theorem negate_zero_or_minimum:
  "operator_negate signed_int False 0 [0 \<mapsto> [0, 0]] = Inr (0, [0 \<mapsto> [0, 0]]) \<and>
   operator_negate signed_int False 0 [0 \<mapsto> [- 2147483648, 1]] = Inl Undefined_behavior"
  by (simp add: operator_negate_def times_assign_scalar_def signed_int_def checked_def
      int_range_def)

section \<open>Properties of the child sequence\<close>

text \<open>Forward iteration visits exactly the stored pointers, in their order.\<close>

lemma iterate_children: "iterate w = children w"
proof -
  have "map (child w) [0..<length (children w)] = map (\<lambda>i. children w ! i) [0..<length (children w)]"
    by (simp add: child_def)
  then show ?thesis
    by (simp add: iterate_def begin_widget_def end_widget_def map_nth)
qed

lemma upt_three: "first_it \<le> last_it \<Longrightarrow> last_it \<le> n \<Longrightarrow>
    [0..<n] = [0..<first_it] @ [first_it..<last_it] @ [last_it..<n]"
proof -
  assume a: "first_it \<le> last_it" "last_it \<le> n"
  have "[0..<n] = [0..<last_it] @ [last_it..<n]"
    using a(2) upt_add_eq_append[of 0 last_it "n - last_it"] by simp
  moreover have "[0..<last_it] = [0..<first_it] @ [first_it..<last_it]"
    using a(1) upt_add_eq_append[of 0 first_it "last_it - first_it"] by simp
  ultimately show ?thesis by simp
qed

lemma erase_range_spec:
  assumes "first_it \<le> last_it" "last_it \<le> length xs"
  shows "map (\<lambda>i. xs ! i) (filter (\<lambda>i. \<not> (first_it \<le> i \<and> i < last_it)) [0..<length xs])
           = take first_it xs @ drop last_it xs"
proof -
  have a: "filter (\<lambda>i. \<not> (first_it \<le> i \<and> i < last_it)) [0..<first_it] = [0..<first_it]"
    by (rule filter_True) auto
  have b: "filter (\<lambda>i. \<not> (first_it \<le> i \<and> i < last_it)) [first_it..<last_it] = []"
    by (rule filter_False) auto
  have c: "filter (\<lambda>i. \<not> (first_it \<le> i \<and> i < last_it)) [last_it..<length xs] = [last_it..<length xs]"
    by (rule filter_True) auto
  have "map (\<lambda>i. xs ! i) (take first_it [0..<length xs]) = take first_it xs"
    by (simp only: take_map [symmetric] map_nth)
  then have d: "map (\<lambda>i. xs ! i) [0..<first_it] = take first_it xs"
    using assms by simp
  have "map (\<lambda>i. xs ! i) (drop last_it [0..<length xs]) = drop last_it xs"
    by (simp only: drop_map [symmetric] map_nth)
  then have e: "map (\<lambda>i. xs ! i) [last_it..<length xs] = drop last_it xs"
    by simp
  show ?thesis
    by (subst upt_three[OF assms]) (simp add: a b c d e)
qed

lemma erase_spec:
  assumes "pos < length xs"
  shows "map (\<lambda>i. xs ! i) (filter (\<lambda>i. i \<noteq> pos) [0..<length xs]) = take pos xs @ drop (Suc pos) xs"
proof -
  have "(\<lambda>i. i \<noteq> pos) = (\<lambda>i. \<not> (pos \<le> i \<and> i < Suc pos))" by auto
  then show ?thesis
    using erase_range_spec[of pos "Suc pos" xs] assms by simp
qed

lemma subseq_take_drop:
  assumes "first_it \<le> last_it"
  shows "subseq (take first_it xs @ drop last_it xs) xs"
proof -
  have "drop last_it xs = drop (last_it - first_it) (drop first_it xs)"
    using assms by simp
  then have "suffix (drop last_it xs) (drop first_it xs)"
    by (metis suffix_drop)
  then have "subseq (drop last_it xs) (drop first_it xs)" by (rule suffix_imp_subseq)
  then have "subseq (take first_it xs @ drop last_it xs) (take first_it xs @ drop first_it xs)"
    by (simp only: subseq_append')
  then show ?thesis by (simp only: append_take_drop_id)
qed
text \<open>
  A subsequence of a list without repetitions is that list restricted to the
  elements of the subsequence.
\<close>

lemma subseq_distinct_filter:
  "subseq ys xs \<Longrightarrow> distinct xs \<Longrightarrow> filter (\<lambda>x. x \<in> set ys) xs = ys"
proof (induction rule: list_emb.induct)
  case (list_emb_Nil ys)
  then show ?case by simp
next
  case (list_emb_Cons xs ys y)
  then have "y \<notin> set xs" using list_emb_set[of "(=)" xs ys] by auto
  with list_emb_Cons show ?case by simp
next
  case (list_emb_Cons2 x y xs ys)
  then have xy: "x = y" and d: "y \<notin> set ys" "distinct ys" by simp_all
  have "filter (\<lambda>z. z \<in> set (x # xs)) ys = filter (\<lambda>z. z \<in> set xs) ys"
    using xy d(1) by (intro filter_cong refl) auto
  with list_emb_Cons2 xy d show ?case by simp
qed


text \<open>The effect of each building call on the child sequence, where the call is defined.\<close>

lemma step_push_back:
  "step (Op_push_back p) s = Inr s1 \<Longrightarrow> children (the_widget s1) = children (the_widget s) @ [p]"
  by (auto simp: push_back_def)

lemma emplace_back_ill_formed: "emplace_back w p = Inl Ill_formed"
  by (simp add: emplace_back_def emplace_back_body_def return_widget_reference_def Let_def)


lemma step_insert:
  "step (Op_insert pos p) s = Inr s1 \<Longrightarrow>
     pos \<le> length (children (the_widget s)) \<and>
     children (the_widget s1) = take pos (children (the_widget s)) @ p # drop pos (children (the_widget s))"
  by (auto simp: insert_widget_def split: if_splits)

lemma step_erase:
  "step (Op_erase pos) s = Inr s1 \<Longrightarrow>
     pos < length (children (the_widget s)) \<and>
     children (the_widget s1) = take pos (children (the_widget s)) @ drop (Suc pos) (children (the_widget s))"
  by (auto simp: erase_def split: if_splits)

lemma step_erase_range:
  "step (Op_erase_range first_it last_it) s = Inr s1 \<Longrightarrow>
     first_it \<le> last_it \<and> last_it \<le> length (children (the_widget s)) \<and>
     children (the_widget s1) = take first_it (children (the_widget s)) @ drop last_it (children (the_widget s))"
  by (auto simp: erase_range_def split: if_splits)

lemma run_builds_induct [consumes 2, case_names Nil Push Insert Erase Erase_range]:
  assumes "list_all builds ops" and "run ops s = Inr s'"
    and Nil: "\<And>xs. P [] xs xs"
    and Push: "\<And>p ops xs ys. P ops (xs @ [p]) ys \<Longrightarrow> P (Op_push_back p # ops) xs ys"
    and Insert: "\<And>pos p ops xs ys. pos \<le> length xs \<Longrightarrow>
           P ops (take pos xs @ p # drop pos xs) ys \<Longrightarrow> P (Op_insert pos p # ops) xs ys"
    and Erase: "\<And>pos ops xs ys. pos < length xs \<Longrightarrow>
           P ops (take pos xs @ drop (Suc pos) xs) ys \<Longrightarrow> P (Op_erase pos # ops) xs ys"
    and Erase_range: "\<And>first_it last_it ops xs ys. first_it \<le> last_it \<Longrightarrow> last_it \<le> length xs \<Longrightarrow>
           P ops (take first_it xs @ drop last_it xs) ys \<Longrightarrow> P (Op_erase_range first_it last_it # ops) xs ys"
  shows "P ops (children (the_widget s)) (children (the_widget s'))"
  using assms(1,2)
proof (induction ops arbitrary: s)
  case Nil
  then show ?case by (simp add: assms(3))
next
  case (Cons op ops)
  from Cons.prems obtain s1 where s1: "step op s = Inr s1" and r: "run ops s1 = Inr s'"
    by (auto split: sum.splits)
  from Cons.prems have b: "builds op" and bs: "list_all builds ops" by simp_all
  have IH: "P ops (children (the_widget s1)) (children (the_widget s'))"
    by (rule Cons.IH[OF bs r])
  from b show ?case
  proof (cases op)
    case (Op_push_back p)
    with s1 IH show ?thesis using step_push_back[of p s s1] Push by simp
  next
    case (Op_insert pos p)
    with s1 IH show ?thesis using step_insert[of pos p s s1] Insert by simp
  next
    case (Op_erase pos)
    with s1 IH show ?thesis using step_erase[of pos s s1] Erase by simp
  next
    case (Op_erase_range first_it last_it)
    with s1 IH show ?thesis using step_erase_range[of first_it last_it s s1] Erase_range by simp
  qed simp_all
qed

lemma run_size:
  assumes "list_all builds ops" and "run ops s = Inr s'"
  shows "length (children (the_widget s')) + erased ops
           = length (children (the_widget s)) + length (inserted ops)"
  using assms by (induction rule: run_builds_induct) auto

lemma run_spec:
  assumes "list_all builds ops" and "run ops s = Inr s'"
  shows "children (the_widget s') = spec_sequence ops (children (the_widget s))"
  using assms
proof (induction rule: run_builds_induct)
  case (Erase pos ops xs ys)
  then show ?case by (simp only: spec_sequence.simps erase_spec)
next
  case (Erase_range first_it last_it ops xs ys)
  then show ?case by (simp only: spec_sequence.simps erase_range_spec)
qed simp_all

lemma run_set:
  assumes "list_all builds ops" and "run ops s = Inr s'"
  shows "set (children (the_widget s')) \<subseteq> set (children (the_widget s)) \<union> set (inserted ops)"
  using assms
proof (induction rule: run_builds_induct)
  case (Insert pos p ops xs ys)
  have "set (take pos xs) \<union> set (drop pos xs) \<subseteq> set xs"
    using set_take_subset set_drop_subset by fast
  with Insert show ?case by auto
next
  case (Erase pos ops xs ys)
  have "set (take pos xs) \<union> set (drop (Suc pos) xs) \<subseteq> set xs"
    using set_take_subset set_drop_subset by fast
  with Erase show ?case by auto
next
  case (Erase_range first_it last_it ops xs ys)
  have "set (take first_it xs) \<union> set (drop last_it xs) \<subseteq> set xs"
    using set_take_subset set_drop_subset by fast
  with Erase_range show ?case by auto
qed auto

lemma run_subseq:
  assumes "list_all builds ops" and "run ops s = Inr s'"
  shows "\<not> list_ex inserts_at_position ops \<Longrightarrow>
           subseq (children (the_widget s')) (children (the_widget s) @ inserted ops)"
  using assms
proof (induction rule: run_builds_induct)
  case (Erase pos ops xs ys)
  then have "subseq ys ((take pos xs @ drop (Suc pos) xs) @ inserted ops)" by simp
  moreover have "subseq ((take pos xs @ drop (Suc pos) xs) @ inserted ops) (xs @ inserted ops)"
    using subseq_take_drop[of pos "Suc pos" xs] by (simp only: subseq_append)
  ultimately show ?case using subseq_order.trans by fastforce
next
  case (Erase_range first_it last_it ops xs ys)
  then have "subseq ys ((take first_it xs @ drop last_it xs) @ inserted ops)" by simp
  moreover have "subseq ((take first_it xs @ drop last_it xs) @ inserted ops) (xs @ inserted ops)"
    using subseq_take_drop[of first_it last_it xs] Erase_range by (simp only: subseq_append)
  ultimately show ?case using subseq_order.trans by fastforce
qed simp_all

lemma fresh_state_constructed:
  "the_widget fresh_state = widget_default \<or> the_widget fresh_state = widget_bounds []"
  by (simp add: fresh_state_def)

lemma run_mixed_calls: "run mixed_calls fresh_state = Inr mixed_state"
  by (simp add: mixed_calls_def fresh_state_def mixed_state_def widget_default_def at_widget_def
      push_back_def clear_def insert_widget_def erase_def front_def context_update_def Let_def)

lemma run_building_calls: "run building_calls fresh_state = Inr built_state"
  by (simp add: building_calls_def fresh_state_def built_state_def widget_default_def
      push_back_def insert_widget_def erase_def erase_range_def)

lemma run_appending_calls: "run appending_calls fresh_state = Inr appended_state"
  by (simp add: appending_calls_def fresh_state_def appended_state_def widget_default_def
      push_back_def insert_widget_def erase_def erase_range_def)

lemma run_insert_first_calls: "run insert_first_calls fresh_state = Inr insert_first_state"
  by (simp add: insert_first_calls_def fresh_state_def insert_first_state_def widget_default_def
      push_back_def insert_widget_def)

text \<open>No call changes \<open>_dirty\<close>.\<close>

lemma step_dirty: "step op s = Inr s' \<Longrightarrow> dirty (the_widget s') = dirty (the_widget s)"
  by (cases op)
    (auto simp: at_widget_def subscript_def front_def back_widget_def clear_def insert_widget_def
      erase_def erase_range_def push_back_def emplace_back_ill_formed
      split: if_splits sum.splits error.splits)

lemma run_dirty: "run ops s = Inr s' \<Longrightarrow> dirty (the_widget s') = dirty (the_widget s)"
proof (induction ops arbitrary: s)
  case Nil
  then show ?case by simp
next
  case (Cons op ops)
  then show ?case by (auto split: sum.splits dest: step_dirty)
qed

subsection \<open>Claims about the widget\<close>

text \<open>
  Claim C2. The two statements of \<open>emplace_back\<close> append the newly built child
  (the size grows by one and the new pointer is the last child), but what the
  \<open>return\<close> statement names is \<open>_children.back()\<close>, the \<open>shared_ptr\<close> slot that
  was just appended, and not the widget object that the pointer owns. The declared
  return type \<open>T&\<close> does not bind to it: every call of \<open>emplace_back\<close> is
  ill-formed, constructs no child and returns no reference.
\<close>

theorem emplace_back_returns_slot:
  "emplace_back_body w p = (Slot (size_widget w), push_back w p) \<and>
   size_widget (snd (emplace_back_body w p)) = size_widget w + 1 \<and>
   back_widget (snd (emplace_back_body w p)) = Inr (Slot (size_widget w)) \<and>
   child (snd (emplace_back_body w p)) (size_widget w) = p \<and>
   (\<forall>q. fst (emplace_back_body w p) \<noteq> Pointee q) \<and>
   emplace_back w p = Inl Ill_formed \<and>
   step (Op_emplace_back p) s = Inl Ill_formed"
  by (simp add: emplace_back_body_def emplace_back_ill_formed push_back_def size_widget_def
      back_widget_def child_def Let_def)

text \<open>
  Claim C3, as amended. Start from a newly constructed widget and run any sequence
  of \<open>push_back\<close>, \<open>insert\<close> and \<open>erase\<close> calls that is free of undefined
  behaviour. Then \<open>size()\<close> is the number of appended and inserted children minus
  the number of erased ones. Forward iteration visits the sequence that the
  specification describes: the children in the order of their insertion, modified
  by the inserts and erases at their positions; \<open>front()\<close> and \<open>back()\<close> refer
  to the first and the last child of that sequence, and every child visited is one
  that was handed in. When no call inserts at a position, the children are visited
  in the order of their insertion; if they are moreover distinct pointers, iteration
  visits exactly the surviving inserted children in that order, and \<open>front()\<close> and
  \<open>back()\<close> refer to the first and the last of them.
\<close>

theorem child_sequence:
  assumes "list_all builds ops"
    and "the_widget s0 = widget_default \<or> the_widget s0 = widget_bounds b"
    and "run ops s0 = Inr s"
  shows "size_widget (the_widget s) = length (inserted ops) - erased ops
       \<and> erased ops \<le> length (inserted ops)
       \<and> iterate (the_widget s) = spec_sequence ops []
       \<and> (size_widget (the_widget s) \<noteq> 0 \<longrightarrow>
            front (the_widget s) = Inr (Slot 0) \<and>
            child (the_widget s) 0 = hd (spec_sequence ops []) \<and>
            back_widget (the_widget s) = Inr (Slot (size_widget (the_widget s) - 1)) \<and>
            child (the_widget s) (size_widget (the_widget s) - 1) = last (spec_sequence ops []))
       \<and> set (iterate (the_widget s)) \<subseteq> set (inserted ops)
       \<and> (\<not> list_ex inserts_at_position ops \<longrightarrow>
            subseq (iterate (the_widget s)) (inserted ops))
       \<and> (\<not> list_ex inserts_at_position ops \<and> distinct (inserted ops) \<longrightarrow>
            iterate (the_widget s) = surviving (the_widget s) ops \<and>
            (size_widget (the_widget s) \<noteq> 0 \<longrightarrow>
               child (the_widget s) 0 = hd (surviving (the_widget s) ops) \<and>
               child (the_widget s) (size_widget (the_widget s) - 1)
                 = last (surviving (the_widget s) ops)))"
proof -
  let ?w = "the_widget s"
  have empty: "children (the_widget s0) = []"
    using assms(2) by (auto simp: widget_default_def widget_bounds_def)
  have size: "length (children ?w) + erased ops = length (inserted ops)"
    using run_size[OF assms(1,3)] empty by simp
  have spec: "children ?w = spec_sequence ops []"
    using run_spec[OF assms(1,3)] empty by simp
  have sub: "set (children ?w) \<subseteq> set (inserted ops)"
    using run_set[OF assms(1,3)] empty by simp
  have ord: "subseq (children ?w) (inserted ops)" if "\<not> list_ex inserts_at_position ops"
    using run_subseq[OF assms(1,3) that] empty by simp
  have ends: "front ?w = Inr (Slot 0) \<and> child ?w 0 = hd (children ?w) \<and>
      back_widget ?w = Inr (Slot (length (children ?w) - 1)) \<and>
      child ?w (length (children ?w) - 1) = last (children ?w)"
    if "children ?w \<noteq> []"
    using that by (simp add: front_def back_widget_def child_def hd_conv_nth last_conv_nth)
  have surv: "children ?w = surviving ?w ops"
    if "\<not> list_ex inserts_at_position ops" "distinct (inserted ops)"
    using subseq_distinct_filter[OF ord[OF that(1)] that(2)] by (simp add: surviving_def)
  have 1: "size_widget ?w = length (inserted ops) - erased ops \<and> erased ops \<le> length (inserted ops)"
    using size by (simp add: size_widget_def)
  have 2: "iterate ?w = spec_sequence ops []"
    using spec by (simp add: iterate_children)
  have 3: "size_widget ?w \<noteq> 0 \<longrightarrow>
            front ?w = Inr (Slot 0) \<and> child ?w 0 = hd (spec_sequence ops []) \<and>
            back_widget ?w = Inr (Slot (size_widget ?w - 1)) \<and>
            child ?w (size_widget ?w - 1) = last (spec_sequence ops [])"
    using ends spec by (simp add: size_widget_def)
  have 4: "set (iterate ?w) \<subseteq> set (inserted ops)"
    using sub by (simp add: iterate_children)
  have 5: "\<not> list_ex inserts_at_position ops \<longrightarrow> subseq (iterate ?w) (inserted ops)"
    using ord by (simp add: iterate_children)
  have 6: "\<not> list_ex inserts_at_position ops \<and> distinct (inserted ops) \<longrightarrow>
            iterate ?w = surviving ?w ops \<and>
            (size_widget ?w \<noteq> 0 \<longrightarrow>
               child ?w 0 = hd (surviving ?w ops) \<and>
               child ?w (size_widget ?w - 1) = last (surviving ?w ops))"
  proof (intro impI conjI)
    assume a: "\<not> list_ex inserts_at_position ops \<and> distinct (inserted ops)"
    then have sv: "children ?w = surviving ?w ops" using surv by blast
    then show "iterate ?w = surviving ?w ops" by (simp add: iterate_children)
    assume "size_widget ?w \<noteq> 0"
    then have ne: "children ?w \<noteq> []" by (simp add: size_widget_def)
    from ends[OF ne] sv show "child ?w 0 = hd (surviving ?w ops)" by simp
    from ends[OF ne] sv show "child ?w (size_widget ?w - 1) = last (surviving ?w ops)"
      by (simp add: size_widget_def)
  qed
  from 1 2 3 4 5 6 show ?thesis by blast
qed

theorem child_sequence_witness:
  "list_all builds building_calls
   \<and> run building_calls fresh_state = Inr built_state
   \<and> size_widget (the_widget built_state) = length (inserted building_calls) - erased building_calls
   \<and> size_widget (the_widget built_state) = 2
   \<and> iterate (the_widget built_state) = spec_sequence building_calls []
   \<and> iterate (the_widget built_state) = [3, 5]
   \<and> front (the_widget built_state) = Inr (Slot 0)
   \<and> child (the_widget built_state) 0 = hd (spec_sequence building_calls [])
   \<and> back_widget (the_widget built_state) = Inr (Slot (size_widget (the_widget built_state) - 1))
   \<and> list_all builds appending_calls
   \<and> run appending_calls fresh_state = Inr appended_state
   \<and> \<not> list_ex inserts_at_position appending_calls
   \<and> distinct (inserted appending_calls)
   \<and> inserted appending_calls = [1, 2, 3, 4]
   \<and> subseq (iterate (the_widget appended_state)) (inserted appending_calls)
   \<and> iterate (the_widget appended_state) = surviving (the_widget appended_state) appending_calls
   \<and> iterate (the_widget appended_state) = [1, 3, 4]
   \<and> child (the_widget appended_state) 0 = hd (surviving (the_widget appended_state) appending_calls)
   \<and> child (the_widget appended_state) (size_widget (the_widget appended_state) - 1)
       = last (surviving (the_widget appended_state) appending_calls)"
proof -
  have b1: "list_all builds building_calls" by (simp add: building_calls_def)
  have b2: "list_all builds appending_calls" by (simp add: appending_calls_def)
  have n: "\<not> list_ex inserts_at_position appending_calls" by (simp add: appending_calls_def)
  have d: "distinct (inserted appending_calls)" by (simp add: appending_calls_def)
  have e: "size_widget (the_widget built_state) = 2" "size_widget (the_widget built_state) \<noteq> 0"
    "size_widget (the_widget appended_state) \<noteq> 0"
    "iterate (the_widget built_state) = [3, 5]"
    "iterate (the_widget appended_state) = [1, 3, 4]"
    "inserted appending_calls = [1, 2, 3, 4]"
    by (simp_all add: built_state_def appended_state_def size_widget_def iterate_children
        appending_calls_def)
  from child_sequence [OF b1 fresh_state_constructed run_building_calls]
    child_sequence [OF b2 fresh_state_constructed run_appending_calls]
    b1 b2 n d e run_building_calls run_appending_calls
  show ?thesis by blast
qed

text \<open>
  After \<open>push_back(1)\<close> and \<open>insert(begin(), 2)\<close> both children survive and the
  first inserted one is 1, yet \<open>front()\<close> refers to 2 and \<open>back()\<close> to 1: with an
  insert at a position, \<open>front()\<close> and \<open>back()\<close> are not the first and the last
  surviving inserted child.
\<close>

theorem front_after_insert_at_begin:
  "list_all builds insert_first_calls
   \<and> run insert_first_calls fresh_state = Inr insert_first_state
   \<and> surviving (the_widget insert_first_state) insert_first_calls = [1, 2]
   \<and> front (the_widget insert_first_state) = Inr (Slot 0)
   \<and> child (the_widget insert_first_state) 0 = 2
   \<and> child (the_widget insert_first_state) 0
       \<noteq> hd (surviving (the_widget insert_first_state) insert_first_calls)
   \<and> back_widget (the_widget insert_first_state) = Inr (Slot 1)
   \<and> child (the_widget insert_first_state) 1 = 1
   \<and> child (the_widget insert_first_state) 1
       \<noteq> last (surviving (the_widget insert_first_state) insert_first_calls)
   \<and> iterate (the_widget insert_first_state) = [2, 1]"
  using run_insert_first_calls
  by (simp add: insert_first_calls_def insert_first_state_def surviving_def front_def
      back_widget_def child_def iterate_children)

text \<open>
  Claim C7. \<open>at(pos)\<close> with \<open>pos\<close> not below \<open>size()\<close> throws
  \<open>std::out_of_range\<close>, and with \<open>pos\<close> below \<open>size()\<close> it returns a reference to
  the child at position \<open>pos\<close>; either way the caller goes on with the widget
  unchanged. \<open>operator[]\<close> returns the same reference for \<open>pos\<close> below
  \<open>size()\<close>, and has undefined behaviour otherwise, after which nothing can be
  said about the program.
\<close>

theorem at_checked:
  "(size_widget (the_widget s) \<le> pos \<longrightarrow> at_widget (the_widget s) pos = Inl Out_of_range) \<and>
   (pos < size_widget (the_widget s) \<longrightarrow>
      at_widget (the_widget s) pos = Inr (Slot pos) \<and>
      child (the_widget s) pos = iterate (the_widget s) ! pos) \<and>
   run (Op_at pos # ops) s = run ops s \<and>
   (size_widget (the_widget s) \<le> pos \<longrightarrow>
      subscript (the_widget s) pos = Inl Undefined_behavior \<and>
      run (Op_subscript pos # ops) s = Inl Undefined_behavior) \<and>
   (pos < size_widget (the_widget s) \<longrightarrow> subscript (the_widget s) pos = Inr (Slot pos))"
  by (simp add: at_widget_def size_widget_def subscript_def iterate_children child_def)

theorem at_checked_witness:
  "at_widget (the_widget two_children) 2 = Inl Out_of_range \<and>
   at_widget (the_widget two_children) 1 = Inr (Slot 1) \<and>
   child (the_widget two_children) 1 = 20 \<and>
   run [Op_at 2, Op_size] two_children = Inr two_children \<and>
   subscript (the_widget two_children) 2 = Inl Undefined_behavior \<and>
   run [Op_subscript 2, Op_size] two_children = Inl Undefined_behavior \<and>
   subscript (the_widget two_children) 1 = Inr (Slot 1)"
  using at_checked [of two_children 2 "[Op_size]"] at_checked [of two_children 1 "[Op_size]"]
  by (simp add: two_children_def size_widget_def iterate_children)

text \<open>
  Claim C8. Both constructors set \<open>_dirty\<close>; no call of the library changes
  it; hence it is set in every state that a sequence of calls reaches from a newly
  constructed widget.
\<close>

theorem dirty_invariant:
  assumes "the_widget s = widget_default \<or> the_widget s = widget_bounds b"
    and "run ops s = Inr s'"
  shows "dirty (the_widget s) \<and> dirty (the_widget s') \<and>
         (\<forall>op t t'. step op t = Inr t' \<longrightarrow> dirty (the_widget t') = dirty (the_widget t))"
proof -
  have 1: "dirty (the_widget s)"
    using assms(1) by (auto simp: widget_default_def widget_bounds_def)
  have 2: "dirty (the_widget s')"
    using run_dirty[OF assms(2)] 1 by simp
  have 3: "\<forall>op t t'. step op t = Inr t' \<longrightarrow> dirty (the_widget t') = dirty (the_widget t)"
    using step_dirty by blast
  from 1 2 3 show ?thesis by blast
qed

theorem dirty_invariant_witness:
  "(the_widget fresh_state = widget_default \<or> the_widget fresh_state = widget_bounds []) \<and>
   run mixed_calls fresh_state = Inr mixed_state \<and>
   dirty (the_widget fresh_state) \<and> dirty (the_widget mixed_state)"
  using dirty_invariant [OF fresh_state_constructed run_mixed_calls]
    fresh_state_constructed run_mixed_calls
  by blast

section \<open>Properties of the context\<close>

lemma white: "tvec_broadcast 4 (1 :: float) = [1, 1, 1, 1]"
  by (simp add: tvec_broadcast_replicate numeral_eq_Suc)

text \<open>For every backend, \<open>draw\<close> is \<open>begin_pass\<close> followed by one \<open>draw\<close> of the triangle.\<close>

lemma context_draw_calls:
  "renderer (context_draw c) = call_draw vertices (call_begin_pass (renderer c))"
  by (simp add: context_draw_def Let_def)

text \<open>
  Claim C1. On the recording backend, whatever it has recorded before, one call of
  \<open>context::draw\<close> records \<open>begin_pass()\<close> and then one \<open>draw\<close> of the three
  white vertices at \<open>(-0.5, -0.5)\<close>, \<open>(0.5, -0.5)\<close> and \<open>(0, 0.5)\<close>, and
  nothing else: the sequence is not the one that ends with \<open>end_pass()\<close>.
\<close>

theorem context_draw_recorded:
  "recorded (context_draw (make_context (recording_renderer\<lparr>self := calls\<rparr>))) =
     calls @
     [Begin_pass,
      Draw [\<lparr>position = [- 0.5, - 0.5], color = [1, 1, 1, 1]\<rparr>,
            \<lparr>position = [0.5, - 0.5], color = [1, 1, 1, 1]\<rparr>,
            \<lparr>position = [0, 0.5], color = [1, 1, 1, 1]\<rparr>]]
   \<and> recorded (context_draw (make_context (recording_renderer\<lparr>self := calls\<rparr>))) \<noteq>
     calls @
     [Begin_pass,
      Draw [\<lparr>position = [- 0.5, - 0.5], color = [1, 1, 1, 1]\<rparr>,
            \<lparr>position = [0.5, - 0.5], color = [1, 1, 1, 1]\<rparr>,
            \<lparr>position = [0, 0.5], color = [1, 1, 1, 1]\<rparr>],
      End_pass]"
  by (simp add: recorded_def context_draw_def make_context_def recording_renderer_def
      call_begin_pass_def call_draw_def vertices_def white Let_def)

text \<open>
  Claim C9. \<open>context::update\<close> returns the context as it was: the renderer it owns
  is unchanged, and on the recording backend no call is recorded.
\<close>

theorem context_update_unchanged:
  "context_update c = c \<and> renderer (context_update c) = renderer c \<and>
   recorded (context_update k) = recorded k"
  by (simp add: context_update_def)

end
